theory Spec2Isabelle
  imports Main "HOL-Library.Word"
begin

section \<open>JavaScript strings and \<open>Array.from\<close>\<close>

text \<open>
  A JavaScript string is a sequence of 16-bit UTF-16 code units. The emoji payload is
  modelled that way, because \<^verbatim>\<open>Array.from(str)\<close> iterates a string by code points: a
  lead surrogate followed by a trail surrogate is one element, every other code unit
  (a lone surrogate too) is an element of its own. Identifiers and messages are
  modelled as \<open>string\<close>.
\<close>

type_synonym code_unit = "16 word"
type_synonym js_string = "code_unit list"

definition is_lead_surrogate :: "code_unit \<Rightarrow> bool" where
  "is_lead_surrogate u = (0xD800 \<le> unat u \<and> unat u \<le> 0xDBFF)"

definition is_trail_surrogate :: "code_unit \<Rightarrow> bool" where
  "is_trail_surrogate u = (0xDC00 \<le> unat u \<and> unat u \<le> 0xDFFF)"

fun Array_from :: "js_string \<Rightarrow> js_string list" where
  "Array_from [] = []"
| "Array_from [u] = [[u]]"
| "Array_from (u # v # rest) =
     (if is_lead_surrogate u \<and> is_trail_surrogate v
      then [u, v] # Array_from rest
      else [u] # Array_from (v # rest))"

text \<open>
  The UTF-16 encoding of one code point (\<open>0 .. 0x10FFFF\<close>): one code unit below
  \<open>0x10000\<close>, a surrogate pair above.
\<close>

definition utf16 :: "nat \<Rightarrow> js_string" where
  "utf16 cp =
     (if cp < 0x10000 then [of_nat cp]
      else [of_nat (0xD800 + (cp - 0x10000) div 0x400),
            of_nat (0xDC00 + (cp - 0x10000) mod 0x400)])"

text \<open>A Unicode scalar value: a code point that is not a surrogate.\<close>

definition scalar_value :: "nat \<Rightarrow> bool" where
  "scalar_value cp = (cp \<le> 0x10FFFF \<and> \<not> (0xD800 \<le> cp \<and> cp \<le> 0xDFFF))"

section \<open>The store, the session and the environment\<close>

text \<open>
  The rows of the three tables the actions touch, with the columns the actions read
  and write. A column an insert leaves out is \<open>None\<close> (SQL NULL).
\<close>

record poll_row =
  polls_id :: string
  polls_title :: string
  polls_created_by :: "string option"

record option_row =
  options_poll_id :: string
  option_text :: string
  option_order :: nat

record vote_row =
  votes_poll_id :: string
  votes_user_id :: "string option"
  votes_option_id :: "string option"
  votes_content :: "js_string option"
  votes_type :: "string option"

record store =
  polls :: "poll_row list"
  poll_options :: "option_row list"
  votes :: "vote_row list"

text \<open>The error object of the store client: \<^verbatim>\<open>{ code, message }\<close>.\<close>

record pg_error =
  pg_code :: string
  pg_message :: string

text \<open>Every request an action sends to the store, with its arguments.\<close>

datatype store_call =
  Select_votes string string js_string
| Insert_votes vote_row
| Insert_polls string "string option"
| Insert_poll_options "option_row list"
| Delete_polls string

text \<open>
  The world an action runs in and changes: the tables, the requests sent to the store
  so far (oldest first), and the paths handed to \<^verbatim>\<open>revalidatePath\<close>.
\<close>

record world =
  db :: store
  calls :: "store_call list"
  revalidated :: "string list"

text \<open>
  What the action cannot decide itself:
  \<^item> \<open>SUPABASE_URL\<close>, \<open>SUPABASE_ANON_KEY\<close>: the two variables of \<^verbatim>\<open>process.env\<close> that
    \<^verbatim>\<open>createClient\<close> reads (\<open>None\<close> when a variable is not set);
  \<^item> \<open>getUser_rejects\<close>: the reason with which \<^verbatim>\<open>await supabase.auth.getUser()\<close>
    rejects, when it does;
  \<^item> \<open>auth_user\<close>, \<open>auth_error\<close>: the \<^verbatim>\<open>data.user\<close> (its id) and the
    \<^verbatim>\<open>error\<close> (its message) of the answer of \<^verbatim>\<open>supabase.auth.getUser()\<close>;
  \<^item> \<open>rejects\<close>: whether the store refuses a request (a constraint, a policy, an
    outage), and with which error; a refused request changes no table;
  \<^item> \<open>is_uuid\<close>, \<open>uuid_message\<close>: the format check behind \<^verbatim>\<open>z.string().uuid()\<close> and
    the message of the issue it raises, both the validation library's;
  \<^item> \<open>new_id\<close>: the id the store generates for an inserted poll.
\<close>

record env =
  SUPABASE_URL :: "string option"
  SUPABASE_ANON_KEY :: "string option"
  getUser_rejects :: "string option"
  auth_user :: "string option"
  auth_error :: "string option"
  rejects :: "store_call \<Rightarrow> pg_error option"
  is_uuid :: "string \<Rightarrow> bool"
  uuid_message :: string
  new_id :: string

text \<open>What an action throws to its caller instead of returning a result.\<close>

datatype thrown =
  Missing_url_or_key
| GetUser_rejected string

text \<open>
  \<^verbatim>\<open>createClient()\<close> of \<^verbatim>\<open>lib/supabase/server\<close>: it hands
  \<^verbatim>\<open>process.env.SUPABASE_URL!\<close> and \<^verbatim>\<open>process.env.SUPABASE_ANON_KEY!\<close> to
  \<^verbatim>\<open>createServerClient\<close>, which throws when the URL or the key is missing or empty.
\<close>

definition createClient :: "env \<Rightarrow> thrown + unit" where
  "createClient e =
     (if SUPABASE_URL e = None \<or> SUPABASE_URL e = Some [] \<or>
         SUPABASE_ANON_KEY e = None \<or> SUPABASE_ANON_KEY e = Some []
      then Inl Missing_url_or_key
      else Inr ())"

text \<open>
  \<^verbatim>\<open>await supabase.auth.getUser()\<close>, destructured to \<^verbatim>\<open>data.user\<close>: the user of the
  answer, or the rejection.
\<close>

definition getUser :: "env \<Rightarrow> thrown + string option" where
  "getUser e =
     (case getUser_rejects e of
        Some reason \<Rightarrow> Inl (GetUser_rejected reason)
      | None \<Rightarrow> Inr (auth_user e))"

definition log_call :: "store_call \<Rightarrow> world \<Rightarrow> world" where
  "log_call c w = w\<lparr>calls := calls w @ [c]\<rparr>"

definition revalidatePath :: "string \<Rightarrow> world \<Rightarrow> world" where
  "revalidatePath p w = w\<lparr>revalidated := revalidated w @ [p]\<rparr>"

subsection \<open>Requests on \<open>votes\<close>\<close>

definition vote_matches :: "string \<Rightarrow> string \<Rightarrow> js_string \<Rightarrow> vote_row \<Rightarrow> bool" where
  "vote_matches pollId uid emoji r =
     (votes_poll_id r = pollId \<and> votes_user_id r = Some uid \<and> votes_content r = Some emoji)"

definition no_rows :: pg_error where
  "no_rows = \<lparr>pg_code = ''PGRST116'',
              pg_message = ''JSON object requested, multiple (or no) rows returned''\<rparr>"

text \<open>
  \<^verbatim>\<open>.from('votes').select('id').eq(..).eq(..).eq(..).single()\<close>: the pair
  \<^verbatim>\<open>(data, error)\<close>. \<^verbatim>\<open>.single()\<close> gives the row when exactly one row matches and
  the error \<^verbatim>\<open>PGRST116\<close> with no data otherwise.
\<close>

definition select_votes_single ::
  "env \<Rightarrow> string \<Rightarrow> string \<Rightarrow> js_string \<Rightarrow> world \<Rightarrow> (vote_row option \<times> pg_error option) \<times> world" where
  "select_votes_single e pollId uid emoji w =
     (let c = Select_votes pollId uid emoji; w' = log_call c w in
      case rejects e c of
        Some err \<Rightarrow> ((None, Some err), w')
      | None \<Rightarrow>
          (case filter (vote_matches pollId uid emoji) (votes (db w)) of
             [r] \<Rightarrow> ((Some r, None), w')
           | _ \<Rightarrow> ((None, Some no_rows), w')))"

text \<open>\<^verbatim>\<open>.from('votes').insert(row)\<close>: the \<^verbatim>\<open>error\<close> of the answer.\<close>

definition insert_votes :: "env \<Rightarrow> vote_row \<Rightarrow> world \<Rightarrow> pg_error option \<times> world" where
  "insert_votes e row w =
     (let c = Insert_votes row; w' = log_call c w in
      case rejects e c of
        Some err \<Rightarrow> (Some err, w')
      | None \<Rightarrow> (None, w'\<lparr>db := (db w')\<lparr>votes := votes (db w') @ [row]\<rparr>\<rparr>))"

section \<open>\<open>response-actions.ts\<close>\<close>

subsection \<open>\<open>emojiResponseSchema\<close>\<close>

record zod_issue =
  issue_path :: string
  issue_message :: string

definition emoji_refine :: "js_string \<Rightarrow> bool" where
  "emoji_refine str = (length (Array_from str) = 1)"

text \<open>
  \<^verbatim>\<open>emojiResponseSchema.safeParse({ pollId, emoji })\<close>: the issues, in the order of the
  schema's keys; the parse succeeds when there is none.
\<close>

definition emojiResponseSchema :: "env \<Rightarrow> string \<Rightarrow> js_string \<Rightarrow> zod_issue list" where
  "emojiResponseSchema e pollId emoji =
     (if is_uuid e pollId then []
      else [\<lparr>issue_path = ''pollId'', issue_message = uuid_message e\<rparr>]) @
     (if emoji_refine emoji then []
      else [\<lparr>issue_path = ''emoji'', issue_message = ''Emoji must be a single character.''\<rparr>])"

subsection \<open>\<open>submitEmojiResponse\<close>\<close>

record response_result =
  success :: bool
  error :: "string option"

definition emoji_row :: "string \<Rightarrow> string \<Rightarrow> js_string \<Rightarrow> vote_row" where
  "emoji_row pollId uid emoji =
     \<lparr>votes_poll_id = pollId, votes_user_id = Some uid, votes_option_id = None,
      votes_content = Some emoji, votes_type = Some ''emoji''\<rparr>"

text \<open>
  The body of the \<^verbatim>\<open>try\<close> block: \<open>Inl\<close> is a thrown store error, \<open>Inr\<close> a returned
  result.
\<close>

definition submitEmojiResponse_try ::
  "env \<Rightarrow> string \<Rightarrow> string \<Rightarrow> js_string \<Rightarrow> world \<Rightarrow> (pg_error + response_result) \<times> world" where
  "submitEmojiResponse_try e uid pollId emoji w =
     (case select_votes_single e pollId uid emoji w of
        ((existingResponse, selectError), w1) \<Rightarrow>
          (case (case selectError of
                   Some err \<Rightarrow> if pg_code err \<noteq> ''PGRST116'' then Some err else None
                 | None \<Rightarrow> None) of
             Some err \<Rightarrow> (Inl err, w1)
           | None \<Rightarrow>
               (case existingResponse of
                  Some r \<Rightarrow>
                    (Inr \<lparr>success = False,
                          error = Some ''You have already responded with this emoji.''\<rparr>, w1)
                | None \<Rightarrow>
                    (case insert_votes e (emoji_row pollId uid emoji) w1 of
                       (Some insertError, w2) \<Rightarrow> (Inl insertError, w2)
                     | (None, w2) \<Rightarrow>
                         (Inr \<lparr>success = True, error = None\<rparr>,
                          revalidatePath (''/polls/'' @ pollId) w2)))))"

text \<open>\<^verbatim>\<open>error.message || 'An unexpected error occurred on the server.'\<close> of the \<^verbatim>\<open>catch\<close> block.\<close>

definition message_or_fallback :: "pg_error \<Rightarrow> string" where
  "message_or_fallback failure =
     (if pg_message failure \<noteq> [] then pg_message failure
      else ''An unexpected error occurred on the server.'')"

text \<open>
  The action: \<open>Inl\<close> is what the call throws to its caller, \<open>Inr\<close> the result it
  returns. The two awaits that come first, the creation of the client and
  \<^verbatim>\<open>getUser()\<close>, are outside the \<^verbatim>\<open>try\<close> block: what they throw leaves the action.
\<close>

definition submitEmojiResponse ::
  "env \<Rightarrow> string \<Rightarrow> js_string \<Rightarrow> world \<Rightarrow> (thrown + response_result) \<times> world" where
  "submitEmojiResponse e pollId emoji w =
     (case createClient e of
        Inl exn \<Rightarrow> (Inl exn, w)
      | Inr supabase \<Rightarrow>
          (case getUser e of
             Inl exn \<Rightarrow> (Inl exn, w)
           | Inr None \<Rightarrow>
               (Inr \<lparr>success = False, error = Some ''You must be logged in to respond.''\<rparr>, w)
           | Inr (Some uid) \<Rightarrow>
               (case emojiResponseSchema e pollId emoji of
                  issue # _ \<Rightarrow>
                    (Inr \<lparr>success = False, error = Some (issue_message issue)\<rparr>, w)
                | [] \<Rightarrow>
                    (case submitEmojiResponse_try e uid pollId emoji w of
                       (Inr result, w') \<Rightarrow> (Inr result, w')
                     | (Inl err, w') \<Rightarrow>
                         (Inr \<lparr>success = False, error = Some (message_or_fallback err)\<rparr>,
                          w')))))"

definition count_votes :: "string \<Rightarrow> string \<Rightarrow> js_string \<Rightarrow> world \<Rightarrow> nat" where
  "count_votes pollId uid emoji w =
     length (filter (vote_matches pollId uid emoji) (votes (db w)))"

section \<open>\<open>poll-actions.ts\<close>\<close>

text \<open>
  The actions of this file are modelled from the answer of \<^verbatim>\<open>getUser()\<close> on:
  \<open>auth_user\<close> and \<open>auth_error\<close> are that answer.
\<close>

record poll_result =
  poll_error :: "string option"

subsection \<open>Requests on \<open>polls\<close> and \<open>poll_options\<close>\<close>

text \<open>
  \<^verbatim>\<open>.from("polls").insert({ title, created_by }).select("id").single()\<close>: the error, or
  the id of the inserted row.
\<close>

definition insert_polls ::
  "env \<Rightarrow> string \<Rightarrow> string option \<Rightarrow> world \<Rightarrow> (pg_error + string) \<times> world" where
  "insert_polls e title uid w =
     (let c = Insert_polls title uid; w' = log_call c w in
      case rejects e c of
        Some pollError \<Rightarrow> (Inl pollError, w')
      | None \<Rightarrow>
          (Inr (new_id e),
           w'\<lparr>db := (db w')\<lparr>polls := polls (db w') @
                  [\<lparr>polls_id = new_id e, polls_title = title, polls_created_by = uid\<rparr>]\<rparr>\<rparr>))"

definition insert_poll_options ::
  "env \<Rightarrow> option_row list \<Rightarrow> world \<Rightarrow> pg_error option \<times> world" where
  "insert_poll_options e rows w =
     (let c = Insert_poll_options rows; w' = log_call c w in
      case rejects e c of
        Some optionsError \<Rightarrow> (Some optionsError, w')
      | None \<Rightarrow> (None, w'\<lparr>db := (db w')\<lparr>poll_options := poll_options (db w') @ rows\<rparr>\<rparr>))"

text \<open>
  The schema's row-level-security policy for deleting polls (the README's SQL, which
  the doc comment of \<^verbatim>\<open>deletePoll\<close> relies on):
  \<^verbatim>\<open>CREATE POLICY "Users can delete own polls" ON polls FOR DELETE USING (auth.uid() = created_by)\<close>.
  \<^verbatim>\<open>auth.uid()\<close> is the session's user; an SQL equality with NULL on a side does not hold.
\<close>

definition delete_policy :: "string option \<Rightarrow> poll_row \<Rightarrow> bool" where
  "delete_policy uid p =
     (case uid of None \<Rightarrow> False | Some u \<Rightarrow> polls_created_by p = Some u)"

text \<open>
  \<^verbatim>\<open>.from("polls").delete().eq("id", id)\<close>: the rows with that id that the policy lets
  the session see are deleted, and with them the options and votes that reference
  them (\<^verbatim>\<open>poll_id ... REFERENCES polls(id) ON DELETE CASCADE\<close>). Deleting no row is no
  error.
\<close>

definition delete_polls :: "env \<Rightarrow> string \<Rightarrow> world \<Rightarrow> pg_error option \<times> world" where
  "delete_polls e ident w =
     (let c = Delete_polls ident; w' = log_call c w in
      case rejects e c of
        Some err \<Rightarrow> (Some err, w')
      | None \<Rightarrow>
          (if list_ex (\<lambda>p. polls_id p = ident \<and> delete_policy (auth_user e) p) (polls (db w))
           then (None,
                 w'\<lparr>db := \<lparr>polls = filter (\<lambda>p. \<not> (polls_id p = ident \<and> delete_policy (auth_user e) p))
                                      (polls (db w)),
                           poll_options = filter (\<lambda>r. options_poll_id r \<noteq> ident) (poll_options (db w)),
                           votes = filter (\<lambda>r. votes_poll_id r \<noteq> ident) (votes (db w))\<rparr>\<rparr>)
           else (None, w')))"

subsection \<open>\<open>createPoll\<close>\<close>

text \<open>
  The form: \<^verbatim>\<open>formData.get("question")\<close> (\<open>None\<close> when the field is absent) and
  \<^verbatim>\<open>formData.getAll("options")\<close>.
\<close>

record form_data =
  fd_question :: "string option"
  fd_options :: "string list"

definition optionsToInsert :: "string \<Rightarrow> string list \<Rightarrow> option_row list" where
  "optionsToInsert pollId options =
     map (\<lambda>(index, option). \<lparr>options_poll_id = pollId, option_text = option, option_order = index\<rparr>)
       (enumerate 0 options)"

definition createPoll :: "env \<Rightarrow> form_data \<Rightarrow> world \<Rightarrow> poll_result \<times> world" where
  "createPoll e formData w =
     (let options = filter (\<lambda>s. s \<noteq> []) (fd_options formData) in
      case fd_question formData of
        None \<Rightarrow> (\<lparr>poll_error = Some ''Please provide a question and at least two options.''\<rparr>, w)
      | Some question \<Rightarrow>
          if question = [] \<or> length options < 2
          then (\<lparr>poll_error = Some ''Please provide a question and at least two options.''\<rparr>, w)
          else
            (case auth_error e of
               Some userError \<Rightarrow> (\<lparr>poll_error = Some userError\<rparr>, w)
             | None \<Rightarrow>
                 (case auth_user e of
                    None \<Rightarrow> (\<lparr>poll_error = Some ''You must be logged in to create a poll.''\<rparr>, w)
                  | Some uid \<Rightarrow>
                      (case insert_polls e question (Some uid) w of
                         (Inl pollError, w1) \<Rightarrow>
                           (\<lparr>poll_error = Some (''Failed to create poll: '' @ pg_message pollError)\<rparr>, w1)
                       | (Inr pollId, w1) \<Rightarrow>
                           (case insert_poll_options e (optionsToInsert pollId options) w1 of
                              (Some optionsError, w2) \<Rightarrow>
                                (\<lparr>poll_error = Some (''Failed to create poll options: '' @
                                               pg_message optionsError)\<rparr>, w2)
                            | (None, w2) \<Rightarrow> (\<lparr>poll_error = None\<rparr>, revalidatePath ''/polls'' w2))))))"

subsection \<open>\<open>submitVote\<close>\<close>

definition ballot_row :: "string \<Rightarrow> string option \<Rightarrow> string \<Rightarrow> vote_row" where
  "ballot_row pollId uid optionId =
     \<lparr>votes_poll_id = pollId, votes_user_id = uid, votes_option_id = Some optionId,
      votes_content = None, votes_type = None\<rparr>"

definition submitVote :: "env \<Rightarrow> string \<Rightarrow> string \<Rightarrow> world \<Rightarrow> poll_result \<times> world" where
  "submitVote e pollId optionId w =
     (case insert_votes e (ballot_row pollId (auth_user e) optionId) w of
        (Some failure, w1) \<Rightarrow> (\<lparr>poll_error = Some (pg_message failure)\<rparr>, w1)
      | (None, w1) \<Rightarrow> (\<lparr>poll_error = None\<rparr>, w1))"

subsection \<open>\<open>deletePoll\<close>\<close>

definition deletePoll :: "env \<Rightarrow> string \<Rightarrow> world \<Rightarrow> poll_result \<times> world" where
  "deletePoll e ident w =
     (case delete_polls e ident w of
        (Some failure, w1) \<Rightarrow> (\<lparr>poll_error = Some (pg_message failure)\<rparr>, w1)
      | (None, w1) \<Rightarrow> (\<lparr>poll_error = None\<rparr>, revalidatePath ''/polls'' w1))"

section \<open>Concrete inputs\<close>

text \<open>
  A format check to run the actions with: 36 characters, hexadecimal digits in groups
  of 8, 4, 4, 4 and 12 with a hyphen between the groups.
\<close>

definition is_hex :: "char \<Rightarrow> bool" where
  "is_hex c = (c \<in> set ''0123456789abcdefABCDEF'')"

definition uuid_shaped :: "string \<Rightarrow> bool" where
  "uuid_shaped s =
     (length s = 36 \<and>
      list_all (\<lambda>(i, c). if i \<in> {8, 13, 18, 23} then c = CHR ''-'' else is_hex c)
        (enumerate (0::nat) s))"

definition session :: "string option \<Rightarrow> (store_call \<Rightarrow> pg_error option) \<Rightarrow> env" where
  "session user refusals =
     \<lparr>SUPABASE_URL = Some ''https://project.supabase.co'', SUPABASE_ANON_KEY = Some ''anon-key'',
      getUser_rejects = None, auth_user = user, auth_error = None, rejects = refusals, is_uuid = uuid_shaped,
      uuid_message = ''Invalid uuid'',
      new_id = ''22222222-2222-2222-2222-222222222222''\<rparr>"

text \<open>
  The environment of the README's \<^verbatim>\<open>.env.local\<close>, which sets
  \<^verbatim>\<open>NEXT_PUBLIC_SUPABASE_URL\<close> and \<^verbatim>\<open>NEXT_PUBLIC_SUPABASE_ANON_KEY\<close> and leaves
  \<^verbatim>\<open>SUPABASE_URL\<close> and \<^verbatim>\<open>SUPABASE_ANON_KEY\<close> unset.
\<close>

definition readme_session :: "string option \<Rightarrow> (store_call \<Rightarrow> pg_error option) \<Rightarrow> env" where
  "readme_session user refusals =
     (session user refusals)\<lparr>SUPABASE_URL := None, SUPABASE_ANON_KEY := None\<rparr>"

definition accepts_all :: "store_call \<Rightarrow> pg_error option" where
  "accepts_all c = None"

definition poll1 :: string where
  "poll1 = ''11111111-1111-1111-1111-111111111111''"

definition thumbs_up :: js_string where
  "thumbs_up = [0xD83D, 0xDC4D]"

definition thumbs_up_medium_skin :: js_string where
  "thumbs_up_medium_skin = [0xD83D, 0xDC4D, 0xD83C, 0xDFFD]"

definition family_zwj :: js_string where
  "family_zwj = [0xD83D, 0xDC68, 0x200D, 0xD83D, 0xDC69, 0x200D, 0xD83D, 0xDC67]"

definition empty_world :: world where
  "empty_world = \<lparr>db = \<lparr>polls = [], poll_options = [], votes = []\<rparr>, calls = [], revalidated = []\<rparr>"

definition unique_violation :: pg_error where
  "unique_violation =
     \<lparr>pg_code = ''23505'',
      pg_message = ''duplicate key value violates unique constraint votes_poll_id_user_id_key''\<rparr>"

definition silent_failure :: pg_error where
  "silent_failure = \<lparr>pg_code = ''XX000'', pg_message = []\<rparr>"

definition policy_violation :: pg_error where
  "policy_violation =
     \<lparr>pg_code = ''42501'',
      pg_message = ''new row violates row-level security policy for table votes''\<rparr>"

definition refuses_inserts :: "pg_error \<Rightarrow> store_call \<Rightarrow> pg_error option" where
  "refuses_inserts err c =
     (case c of
        Insert_votes r \<Rightarrow> Some err
      | Insert_poll_options rows \<Rightarrow> Some err
      | _ \<Rightarrow> None)"

definition voted_world :: world where
  "voted_world =
     \<lparr>db = \<lparr>polls = [], poll_options = [],
             votes = [ballot_row poll1 (Some ''u1'') ''option-a'']\<rparr>,
      calls = [], revalidated = []\<rparr>"

definition two_options :: form_data where
  "two_options = \<lparr>fd_question = Some ''Tea or coffee?'', fd_options = [''Tea'', '''', ''Coffee'']\<rparr>"

definition outage :: pg_error where
  "outage = \<lparr>pg_code = ''57014'', pg_message = ''canceling statement due to statement timeout''\<rparr>"

definition owned_world :: world where
  "owned_world =
     \<lparr>db = \<lparr>polls = [\<lparr>polls_id = poll1, polls_title = ''Tea or coffee?'',
                        polls_created_by = Some ''u1''\<rparr>],
             poll_options = [\<lparr>options_poll_id = poll1, option_text = ''Tea'', option_order = 0\<rparr>,
                             \<lparr>options_poll_id = poll1, option_text = ''Coffee'', option_order = 1\<rparr>],
             votes = [ballot_row poll1 (Some ''u2'') ''option-a'']\<rparr>,
      calls = [], revalidated = []\<rparr>"

section \<open>Properties of \<open>submitEmojiResponse\<close>\<close>

lemma select_one:
  "rejects e (Select_votes p u m) = None \<Longrightarrow> count_votes p u m w = 1 \<Longrightarrow>
   \<exists>r. select_votes_single e p u m w = ((Some r, None), log_call (Select_votes p u m) w)"
  by (auto simp: select_votes_single_def count_votes_def Let_def length_Suc_conv split: list.splits)

lemma select_none:
  "rejects e (Select_votes p u m) = None \<Longrightarrow> count_votes p u m w = 0 \<Longrightarrow>
   select_votes_single e p u m w = ((None, Some no_rows), log_call (Select_votes p u m) w)"
  by (auto simp: select_votes_single_def count_votes_def Let_def split: list.splits)

lemma valid_no_issue: "is_uuid e p \<Longrightarrow> emoji_refine m \<Longrightarrow> emojiResponseSchema e p m = []"
  by (simp add: emojiResponseSchema_def)

lemma after_awaits:
  "createClient e = Inr () \<Longrightarrow> getUser e = Inr user \<Longrightarrow>
   submitEmojiResponse e pollId emoji w =
     (case user of
        None \<Rightarrow>
          (Inr \<lparr>success = False, error = Some ''You must be logged in to respond.''\<rparr>, w)
      | Some uid \<Rightarrow>
          (case emojiResponseSchema e pollId emoji of
             issue # _ \<Rightarrow> (Inr \<lparr>success = False, error = Some (issue_message issue)\<rparr>, w)
           | [] \<Rightarrow>
               (case submitEmojiResponse_try e uid pollId emoji w of
                  (Inr result, w') \<Rightarrow> (Inr result, w')
                | (Inl err, w') \<Rightarrow>
                    (Inr \<lparr>success = False, error = Some (message_or_fallback err)\<rparr>, w'))))"
  by (simp add: submitEmojiResponse_def split: option.splits)

lemma session_client: "createClient (session user refusals) = Inr ()"
  by (simp add: createClient_def session_def)

lemma session_user: "getUser (session user refusals) = Inr user"
  by (simp add: getUser_def session_def)

lemma duplicate_run:
  assumes "createClient e = Inr ()" "getUser e = Inr (Some uid)" "is_uuid e pollId"
    "emoji_refine emoji"
    "rejects e (Select_votes pollId uid emoji) = None" "count_votes pollId uid emoji w = 1"
  shows "submitEmojiResponse e pollId emoji w =
     (Inr \<lparr>success = False, error = Some ''You have already responded with this emoji.''\<rparr>,
      log_call (Select_votes pollId uid emoji) w)"
proof -
  from select_one [OF assms(5,6)] obtain r where
    "select_votes_single e pollId uid emoji w = ((Some r, None), log_call (Select_votes pollId uid emoji) w)" by blast
  then show ?thesis using assms(3,4)
    by (simp add: after_awaits [OF assms(1,2)] submitEmojiResponse_try_def valid_no_issue)
qed

lemma first_run:
  assumes "createClient e = Inr ()" "getUser e = Inr (Some uid)" "is_uuid e pollId"
    "emoji_refine emoji"
    "rejects e (Select_votes pollId uid emoji) = None" "count_votes pollId uid emoji w = 0"
    "rejects e (Insert_votes (emoji_row pollId uid emoji)) = None"
  shows "submitEmojiResponse e pollId emoji w =
     (Inr \<lparr>success = True, error = None\<rparr>,
      w\<lparr>db := (db w)\<lparr>votes := votes (db w) @ [emoji_row pollId uid emoji]\<rparr>,
        calls := calls w @ [Select_votes pollId uid emoji, Insert_votes (emoji_row pollId uid emoji)],
        revalidated := revalidated w @ [''/polls/'' @ pollId]\<rparr>)"
  using assms(3-7) select_none [OF assms(5,6)]
  by (simp add: after_awaits [OF assms(1,2)] submitEmojiResponse_try_def valid_no_issue no_rows_def
      insert_votes_def log_call_def revalidatePath_def Let_def)

lemma count_after_insert:
  "count_votes p u m (w\<lparr>db := (db w)\<lparr>votes := votes (db w) @ [emoji_row p u m]\<rparr>,
        calls := cs, revalidated := rs\<rparr>) = Suc (count_votes p u m w)"
  by (simp add: count_votes_def vote_matches_def emoji_row_def)

lemma count_log_call: "count_votes p u m (log_call c w) = count_votes p u m w"
  by (simp add: count_votes_def log_call_def)

text \<open>
  Claim C1. An authenticated user (the client is created and \<^verbatim>\<open>getUser()\<close> answers with
  the user) submits a valid (poll, emoji) pair and the store answers the pre-check query.
  If exactly one row with that (poll, user, content) triple is
  stored, the call returns \<^verbatim>\<open>{success: false, error: "You have already responded with this emoji."}\<close>,
  sends the query and nothing else, and leaves the tables as they were: the count for
  the triple stays 1. If no such row is stored and the store accepts the insert, the
  call returns \<^verbatim>\<open>{success: true}\<close>, appends exactly one row (query first, insert second),
  the count for the triple becomes 1, and the identical call repeated on the resulting
  world is refused as a duplicate and changes no table.
\<close>

theorem duplicate_emoji_refused_first_accepted:
  assumes "createClient e = Inr ()" and "getUser e = Inr (Some uid)"
    and "is_uuid e pollId" and "emoji_refine emoji"
    and "rejects e (Select_votes pollId uid emoji) = None"
  shows "(count_votes pollId uid emoji w = 1 \<longrightarrow>
            fst (submitEmojiResponse e pollId emoji w) =
              Inr \<lparr>success = False, error = Some ''You have already responded with this emoji.''\<rparr> \<and>
            snd (submitEmojiResponse e pollId emoji w) = log_call (Select_votes pollId uid emoji) w \<and>
            db (snd (submitEmojiResponse e pollId emoji w)) = db w \<and>
            count_votes pollId uid emoji (snd (submitEmojiResponse e pollId emoji w)) = 1) \<and>
         (count_votes pollId uid emoji w = 0 \<and>
          rejects e (Insert_votes (emoji_row pollId uid emoji)) = None \<longrightarrow>
            fst (submitEmojiResponse e pollId emoji w) = Inr \<lparr>success = True, error = None\<rparr> \<and>
            votes (db (snd (submitEmojiResponse e pollId emoji w))) =
              votes (db w) @ [emoji_row pollId uid emoji] \<and>
            calls (snd (submitEmojiResponse e pollId emoji w)) =
              calls w @ [Select_votes pollId uid emoji, Insert_votes (emoji_row pollId uid emoji)] \<and>
            count_votes pollId uid emoji (snd (submitEmojiResponse e pollId emoji w)) = 1 \<and>
            fst (submitEmojiResponse e pollId emoji (snd (submitEmojiResponse e pollId emoji w))) =
              Inr \<lparr>success = False, error = Some ''You have already responded with this emoji.''\<rparr> \<and>
            db (snd (submitEmojiResponse e pollId emoji (snd (submitEmojiResponse e pollId emoji w)))) =
              db (snd (submitEmojiResponse e pollId emoji w)))"
proof (intro conjI impI)
  assume one: "count_votes pollId uid emoji w = 1"
  note run = duplicate_run [OF assms one]
  show "fst (submitEmojiResponse e pollId emoji w) =
          Inr \<lparr>success = False, error = Some ''You have already responded with this emoji.''\<rparr>"
    by (simp add: run)
  show "snd (submitEmojiResponse e pollId emoji w) = log_call (Select_votes pollId uid emoji) w"
    by (simp add: run)
  show "db (snd (submitEmojiResponse e pollId emoji w)) = db w"
    by (simp add: run log_call_def)
  show "count_votes pollId uid emoji (snd (submitEmojiResponse e pollId emoji w)) = 1"
    by (simp add: run count_log_call one)
next
  assume h: "count_votes pollId uid emoji w = 0 \<and>
          rejects e (Insert_votes (emoji_row pollId uid emoji)) = None"
  note run = first_run [OF assms, of w]
  let ?w' = "snd (submitEmojiResponse e pollId emoji w)"
  have w': "?w' = w\<lparr>db := (db w)\<lparr>votes := votes (db w) @ [emoji_row pollId uid emoji]\<rparr>,
        calls := calls w @ [Select_votes pollId uid emoji, Insert_votes (emoji_row pollId uid emoji)],
        revalidated := revalidated w @ [''/polls/'' @ pollId]\<rparr>"
    using run h by simp
  show "fst (submitEmojiResponse e pollId emoji w) = Inr \<lparr>success = True, error = None\<rparr>"
    using run h by simp
  show "votes (db ?w') = votes (db w) @ [emoji_row pollId uid emoji]"
    by (simp add: w')
  show "calls ?w' = calls w @ [Select_votes pollId uid emoji, Insert_votes (emoji_row pollId uid emoji)]"
    by (simp add: w')
  show one: "count_votes pollId uid emoji ?w' = 1"
    using h by (simp only: w' count_after_insert)
  note again = duplicate_run [OF assms one]
  show "fst (submitEmojiResponse e pollId emoji ?w') =
              Inr \<lparr>success = False, error = Some ''You have already responded with this emoji.''\<rparr>"
    by (simp add: again)
  show "db (snd (submitEmojiResponse e pollId emoji ?w')) = db ?w'"
    by (simp add: again log_call_def)
qed

lemma uuid_poll1: "uuid_shaped poll1"
  by (simp add: uuid_shaped_def poll1_def is_hex_def enumerate_eq_zip upt_rec)

lemma refine_thumbs: "emoji_refine thumbs_up"
  by (simp add: emoji_refine_def thumbs_up_def is_lead_surrogate_def is_trail_surrogate_def)

theorem duplicate_emoji_refused_first_accepted_witness:
  "fst (submitEmojiResponse (session (Some ''u1'') accepts_all) poll1 thumbs_up empty_world) =
     Inr \<lparr>success = True, error = None\<rparr> \<and>
   count_votes poll1 ''u1'' thumbs_up
     (snd (submitEmojiResponse (session (Some ''u1'') accepts_all) poll1 thumbs_up empty_world)) = 1 \<and>
   fst (submitEmojiResponse (session (Some ''u1'') accepts_all) poll1 thumbs_up
     (snd (submitEmojiResponse (session (Some ''u1'') accepts_all) poll1 thumbs_up empty_world))) =
     Inr \<lparr>success = False, error = Some ''You have already responded with this emoji.''\<rparr>"
proof -
  have b: "is_uuid (session (Some ''u1'') accepts_all) poll1"
    by (simp add: session_def uuid_poll1)
  have c: "rejects (session (Some ''u1'') accepts_all) (Select_votes poll1 ''u1'' thumbs_up) = None"
    by (simp add: session_def accepts_all_def)
  have d: "count_votes poll1 ''u1'' thumbs_up empty_world = 0"
    by (simp add: count_votes_def empty_world_def)
  have f: "rejects (session (Some ''u1'') accepts_all) (Insert_votes (emoji_row poll1 ''u1'' thumbs_up)) = None"
    by (simp add: session_def accepts_all_def)
  show ?thesis
    using duplicate_emoji_refused_first_accepted
      [OF session_client session_user b refine_thumbs c, of empty_world] d f
    by simp
qed

text \<open>
  Claim C3. With no authenticated session (\<^verbatim>\<open>getUser()\<close> answers with no user), whatever
  the poll identifier and the content (invalid ones too), the call returns
  \<^verbatim>\<open>{success: false, error: "You must be logged in to respond."}\<close>
  and the world is untouched: no request is sent to the store and no table changes.
  Authentication is checked before validation.
\<close>

theorem unauthenticated_before_validation:
  "createClient e = Inr () \<Longrightarrow> getUser e = Inr None \<Longrightarrow>
   submitEmojiResponse e pollId emoji w =
     (Inr \<lparr>success = False, error = Some ''You must be logged in to respond.''\<rparr>, w)"
  by (simp add: after_awaits)

theorem unauthenticated_before_validation_witness:
  "getUser (session None accepts_all) = Inr None \<and>
   \<not> is_uuid (session None accepts_all) ''not-a-uuid'' \<and>
   \<not> emoji_refine thumbs_up_medium_skin \<and>
   submitEmojiResponse (session None accepts_all) ''not-a-uuid'' thumbs_up_medium_skin empty_world =
     (Inr \<lparr>success = False, error = Some ''You must be logged in to respond.''\<rparr>, empty_world)"
proof -
  have b: "\<not> is_uuid (session None accepts_all) ''not-a-uuid''"
    by (simp add: session_def uuid_shaped_def)
  have c: "\<not> emoji_refine thumbs_up_medium_skin"
    by (simp add: emoji_refine_def thumbs_up_medium_skin_def is_lead_surrogate_def
        is_trail_surrogate_def)
  show ?thesis
    using unauthenticated_before_validation [OF session_client session_user,
        of accepts_all "''not-a-uuid''" thumbs_up_medium_skin empty_world] session_user b c
    by simp
qed

text \<open>
  Claim C4. For an authenticated user and a poll identifier that fails the UUID format
  check, the call fails with the message of the identifier's format issue, which is the
  first issue of the parse (path \<open>pollId\<close>) whatever the content is, and the world is
  untouched: no request is sent to the store.
\<close>

theorem malformed_identifier_reported_first:
  assumes "createClient e = Inr ()" and "getUser e = Inr (Some uid)" and "\<not> is_uuid e pollId"
  shows "submitEmojiResponse e pollId emoji w =
           (Inr \<lparr>success = False, error = Some (uuid_message e)\<rparr>, w) \<and>
         hd (emojiResponseSchema e pollId emoji) =
           \<lparr>issue_path = ''pollId'', issue_message = uuid_message e\<rparr>"
  using assms(3) by (simp add: after_awaits [OF assms(1,2)] emojiResponseSchema_def)

theorem malformed_identifier_reported_first_witness:
  "\<not> emoji_refine thumbs_up_medium_skin \<and>
   submitEmojiResponse (session (Some ''u1'') accepts_all) ''not-a-uuid'' thumbs_up_medium_skin
     empty_world = (Inr \<lparr>success = False, error = Some ''Invalid uuid''\<rparr>, empty_world)"
proof -
  have b: "\<not> is_uuid (session (Some ''u1'') accepts_all) ''not-a-uuid''"
    by (simp add: session_def uuid_shaped_def)
  have c: "\<not> emoji_refine thumbs_up_medium_skin"
    by (simp add: emoji_refine_def thumbs_up_medium_skin_def is_lead_surrogate_def
        is_trail_surrogate_def)
  have d: "uuid_message (session (Some ''u1'') accepts_all) = ''Invalid uuid''"
    by (simp add: session_def)
  show ?thesis
    using malformed_identifier_reported_first
      [OF session_client session_user b, of thumbs_up_medium_skin empty_world] c d
    by simp
qed

lemma try_outcome:
  "submitEmojiResponse_try e uid pollId emoji w = (Inr r, w') \<Longrightarrow>
     r = \<lparr>success = False, error = Some ''You have already responded with this emoji.''\<rparr> \<or>
     r = \<lparr>success = True, error = None\<rparr>"
  by (auto simp: submitEmojiResponse_try_def split: prod.splits option.splits if_splits)

lemma fallback_nonempty: "message_or_fallback failure \<noteq> []"
  by (simp add: message_or_fallback_def)

lemma issues_message:
  "uuid_message e \<noteq> [] \<Longrightarrow> emojiResponseSchema e pollId emoji = i # rest \<Longrightarrow> issue_message i \<noteq> []"
  by (auto simp: emojiResponseSchema_def split: if_splits)

lemma returned_shape:
  assumes "uuid_message e \<noteq> []" and "createClient e = Inr ()" and "getUser e = Inr user"
  shows "\<exists>r. fst (submitEmojiResponse e pollId emoji w) = Inr r \<and>
           ((success r \<and> error r = None) \<or>
            (\<not> success r \<and> (\<exists>m. error r = Some m \<and> m \<noteq> [])))"
proof (cases user)
  case None
  then show ?thesis by (simp add: after_awaits [OF assms(2,3)])
next
  case (Some uid)
  show ?thesis
  proof (cases "emojiResponseSchema e pollId emoji")
    case (Cons i rest)
    with Some issues_message [OF assms(1) Cons] show ?thesis
      by (simp add: after_awaits [OF assms(2,3)])
  next
    case Nil
    obtain x w' where t: "submitEmojiResponse_try e uid pollId emoji w = (x, w')"
      by (cases "submitEmojiResponse_try e uid pollId emoji w")
    show ?thesis
    proof (cases x)
      case (Inl failure)
      with Some Nil t fallback_nonempty [of failure] show ?thesis
        by (simp add: after_awaits [OF assms(2,3)])
    next
      case (Inr r)
      with t try_outcome [of e uid pollId emoji w r w'] Some Nil show ?thesis
        by (auto simp: after_awaits [OF assms(2,3)])
    qed
  qed
qed

text \<open>
  Claim C9 as stated fails: the creation of the client and \<^verbatim>\<open>getUser()\<close> are awaited
  before the \<^verbatim>\<open>try\<close> block. With \<^verbatim>\<open>SUPABASE_URL\<close> and \<^verbatim>\<open>SUPABASE_ANON_KEY\<close> unset, the
  call throws and returns no result.
\<close>

theorem submitEmojiResponse_throws_without_client:
  "submitEmojiResponse (readme_session (Some ''u1'') accepts_all) poll1 thumbs_up empty_world =
     (Inl Missing_url_or_key, empty_world)"
  by (simp add: submitEmojiResponse_def createClient_def readme_session_def session_def)

text \<open>
  Claim C9, amended. What the creation of the client or \<^verbatim>\<open>getUser()\<close> throws is thrown
  by the call, which then touches nothing. Once the client is created and
  \<^verbatim>\<open>getUser()\<close> has answered, the call returns a result whatever the inputs and the
  store's answers: either success with no error field, or failure with a non-empty error
  string (the validation library's message for a malformed identifier being non-empty).
  A store error thrown in the \<^verbatim>\<open>try\<close> block with an empty message is reported as
  \<^verbatim>\<open>"An unexpected error occurred on the server."\<close>.
\<close>

theorem result_shape_after_awaits:
  "(createClient e = Inl exn \<longrightarrow> submitEmojiResponse e pollId emoji w = (Inl exn, w)) \<and>
   (createClient e = Inr () \<and> getUser e = Inl exn \<longrightarrow>
      submitEmojiResponse e pollId emoji w = (Inl exn, w)) \<and>
   (createClient e = Inr () \<and> getUser e = Inr user \<and> uuid_message e \<noteq> [] \<longrightarrow>
      (\<exists>r. fst (submitEmojiResponse e pollId emoji w) = Inr r \<and>
           ((success r \<and> error r = None) \<or>
            (\<not> success r \<and> (\<exists>m. error r = Some m \<and> m \<noteq> []))))) \<and>
   (\<forall>uid failure w'. createClient e = Inr () \<and> getUser e = Inr (Some uid) \<and>
      emojiResponseSchema e pollId emoji = [] \<and>
      submitEmojiResponse_try e uid pollId emoji w = (Inl failure, w') \<and>
      pg_message failure = [] \<longrightarrow>
      submitEmojiResponse e pollId emoji w =
        (Inr \<lparr>success = False, error = Some ''An unexpected error occurred on the server.''\<rparr>, w'))"
proof (intro conjI allI impI)
  assume "createClient e = Inl exn"
  then show "submitEmojiResponse e pollId emoji w = (Inl exn, w)"
    by (simp add: submitEmojiResponse_def)
next
  assume "createClient e = Inr () \<and> getUser e = Inl exn"
  then show "submitEmojiResponse e pollId emoji w = (Inl exn, w)"
    by (simp add: submitEmojiResponse_def)
next
  assume "createClient e = Inr () \<and> getUser e = Inr user \<and> uuid_message e \<noteq> []"
  then show "\<exists>r. fst (submitEmojiResponse e pollId emoji w) = Inr r \<and>
           ((success r \<and> error r = None) \<or>
            (\<not> success r \<and> (\<exists>m. error r = Some m \<and> m \<noteq> [])))"
    by (simp add: returned_shape)
next
  fix uid failure w'
  assume h: "createClient e = Inr () \<and> getUser e = Inr (Some uid) \<and>
      emojiResponseSchema e pollId emoji = [] \<and>
      submitEmojiResponse_try e uid pollId emoji w = (Inl failure, w') \<and>
      pg_message failure = []"
  then have "createClient e = Inr ()" "getUser e = Inr (Some uid)" by simp_all
  from after_awaits [OF this] h
  show "submitEmojiResponse e pollId emoji w =
        (Inr \<lparr>success = False, error = Some ''An unexpected error occurred on the server.''\<rparr>, w')"
    by (simp add: message_or_fallback_def)
qed

theorem result_shape_after_awaits_witness:
  "uuid_message (session (Some ''u1'') (refuses_inserts silent_failure)) \<noteq> [] \<and>
   submitEmojiResponse (session (Some ''u1'') (refuses_inserts silent_failure)) poll1 thumbs_up
       empty_world =
     (Inr \<lparr>success = False, error = Some ''An unexpected error occurred on the server.''\<rparr>,
      empty_world\<lparr>calls := [Select_votes poll1 ''u1'' thumbs_up,
                               Insert_votes (emoji_row poll1 ''u1'' thumbs_up)]\<rparr>) \<and>
   getUser ((session None accepts_all)\<lparr>getUser_rejects := Some ''fetch failed''\<rparr>) =
     Inl (GetUser_rejected ''fetch failed'') \<and>
   submitEmojiResponse ((session None accepts_all)\<lparr>getUser_rejects := Some ''fetch failed''\<rparr>)
       poll1 thumbs_up empty_world =
     (Inl (GetUser_rejected ''fetch failed''), empty_world)"
proof -
  let ?e = "session (Some ''u1'') (refuses_inserts silent_failure)"
  let ?w' = "empty_world\<lparr>calls := [Select_votes poll1 ''u1'' thumbs_up,
                               Insert_votes (emoji_row poll1 ''u1'' thumbs_up)]\<rparr>"
  let ?d = "(session None accepts_all)\<lparr>getUser_rejects := Some ''fetch failed''\<rparr>"
  have a: "uuid_message ?e \<noteq> []"
    by (simp add: session_def)
  have c: "emojiResponseSchema ?e poll1 thumbs_up = []"
    by (rule valid_no_issue) (simp_all add: session_def uuid_poll1 refine_thumbs)
  have d: "submitEmojiResponse_try ?e ''u1'' poll1 thumbs_up empty_world = (Inl silent_failure, ?w')"
    by (simp add: submitEmojiResponse_try_def select_votes_single_def insert_votes_def Let_def
        session_def refuses_inserts_def log_call_def empty_world_def no_rows_def)
  have f: "pg_message silent_failure = []"
    by (simp add: silent_failure_def)
  from result_shape_after_awaits [of ?e _ poll1 thumbs_up empty_world]
    session_client [of "Some ''u1''" "refuses_inserts silent_failure"]
    session_user [of "Some ''u1''" "refuses_inserts silent_failure"] c d f
  have one: "submitEmojiResponse ?e poll1 thumbs_up empty_world =
          (Inr \<lparr>success = False, error = Some ''An unexpected error occurred on the server.''\<rparr>, ?w')"
    by blast
  have g: "createClient ?d = Inr ()"
    by (simp add: createClient_def session_def)
  have h: "getUser ?d = Inl (GetUser_rejected ''fetch failed'')"
    by (simp add: getUser_def session_def)
  from result_shape_after_awaits [of ?d "GetUser_rejected ''fetch failed''" poll1 thumbs_up empty_world]
    g h
  have two: "submitEmojiResponse ?d poll1 thumbs_up empty_world =
      (Inl (GetUser_rejected ''fetch failed''), empty_world)"
    by blast
  from a one h two show ?thesis by blast
qed

text \<open>
  Claim C2 as stated fails: when the store refuses the insert with a unique-constraint
  violation (code 23505), the call returns the store's own message, not the duplicate
  message.
\<close>

theorem unique_violation_message_passed_through:
  "pg_code unique_violation = ''23505'' \<and>
   rejects (session (Some ''u1'') (refuses_inserts unique_violation))
     (Insert_votes (emoji_row poll1 ''u1'' thumbs_up)) = Some unique_violation \<and>
   fst (submitEmojiResponse (session (Some ''u1'') (refuses_inserts unique_violation)) poll1
          thumbs_up empty_world) =
     Inr \<lparr>success = False,
          error = Some ''duplicate key value violates unique constraint votes_poll_id_user_id_key''\<rparr> \<and>
   fst (submitEmojiResponse (session (Some ''u1'') (refuses_inserts unique_violation)) poll1
          thumbs_up empty_world) \<noteq>
     Inr \<lparr>success = False, error = Some ''You have already responded with this emoji.''\<rparr>"
proof -
  let ?e = "session (Some ''u1'') (refuses_inserts unique_violation)"
  have c: "emojiResponseSchema ?e poll1 thumbs_up = []"
    by (rule valid_no_issue) (simp_all add: session_def uuid_poll1 refine_thumbs)
  have d: "submitEmojiResponse_try ?e ''u1'' poll1 thumbs_up empty_world =
      (Inl unique_violation,
       empty_world\<lparr>calls := [Select_votes poll1 ''u1'' thumbs_up,
                                Insert_votes (emoji_row poll1 ''u1'' thumbs_up)]\<rparr>)"
    by (simp add: submitEmojiResponse_try_def select_votes_single_def insert_votes_def Let_def
        session_def refuses_inserts_def log_call_def empty_world_def no_rows_def)
  have g: "message_or_fallback unique_violation =
      ''duplicate key value violates unique constraint votes_poll_id_user_id_key''"
    by (simp add: message_or_fallback_def unique_violation_def)
  have "submitEmojiResponse ?e poll1 thumbs_up empty_world =
     (Inr \<lparr>success = False, error = Some (message_or_fallback unique_violation)\<rparr>,
      empty_world\<lparr>calls := [Select_votes poll1 ''u1'' thumbs_up,
                               Insert_votes (emoji_row poll1 ''u1'' thumbs_up)]\<rparr>)"
    by (simp add: after_awaits [OF session_client session_user] c d)
  then have "fst (submitEmojiResponse ?e poll1 thumbs_up empty_world) =
     Inr \<lparr>success = False,
          error = Some ''duplicate key value violates unique constraint votes_poll_id_user_id_key''\<rparr>"
    by (simp add: g)
  then show ?thesis
    by (simp add: unique_violation_def session_def refuses_inserts_def)
qed

lemma select_not_one:
  "rejects e (Select_votes p u m) = None \<Longrightarrow> count_votes p u m w \<noteq> 1 \<Longrightarrow>
   select_votes_single e p u m w = ((None, Some no_rows), log_call (Select_votes p u m) w)"
  by (auto simp: select_votes_single_def count_votes_def Let_def split: list.splits)

text \<open>
  Claim C2, amended. For an authenticated user and valid input: when the pre-check
  query fails with an error other than \<^verbatim>\<open>PGRST116\<close>, or the pre-check finds no single row
  and the store refuses the insert (a unique-constraint violation included), the call
  returns \<^verbatim>\<open>success: false\<close> with the store error's message, replaced by
  \<^verbatim>\<open>"An unexpected error occurred on the server."\<close> only when that message is empty; the
  tables are unchanged.
\<close>

theorem store_failure_reports_store_message:
  assumes "createClient e = Inr ()" and "getUser e = Inr (Some uid)"
    and "is_uuid e pollId" and "emoji_refine emoji"
  shows "(rejects e (Select_votes pollId uid emoji) = Some failure \<and> pg_code failure \<noteq> ''PGRST116'' \<longrightarrow>
            submitEmojiResponse e pollId emoji w =
              (Inr \<lparr>success = False, error = Some (message_or_fallback failure)\<rparr>,
               w\<lparr>calls := calls w @ [Select_votes pollId uid emoji]\<rparr>)) \<and>
         (rejects e (Select_votes pollId uid emoji) = None \<and> count_votes pollId uid emoji w \<noteq> 1 \<and>
          rejects e (Insert_votes (emoji_row pollId uid emoji)) = Some failure \<longrightarrow>
            submitEmojiResponse e pollId emoji w =
              (Inr \<lparr>success = False, error = Some (message_or_fallback failure)\<rparr>,
               w\<lparr>calls := calls w @ [Select_votes pollId uid emoji,
                                     Insert_votes (emoji_row pollId uid emoji)]\<rparr>))"
proof (intro conjI impI)
  assume "rejects e (Select_votes pollId uid emoji) = Some failure \<and> pg_code failure \<noteq> ''PGRST116''"
  then show "submitEmojiResponse e pollId emoji w =
              (Inr \<lparr>success = False, error = Some (message_or_fallback failure)\<rparr>,
               w\<lparr>calls := calls w @ [Select_votes pollId uid emoji]\<rparr>)"
    using assms(3,4)
    by (simp add: after_awaits [OF assms(1,2)] submitEmojiResponse_try_def valid_no_issue
        select_votes_single_def Let_def log_call_def)
next
  assume h: "rejects e (Select_votes pollId uid emoji) = None \<and> count_votes pollId uid emoji w \<noteq> 1 \<and>
          rejects e (Insert_votes (emoji_row pollId uid emoji)) = Some failure"
  then have "select_votes_single e pollId uid emoji w =
      ((None, Some no_rows), log_call (Select_votes pollId uid emoji) w)"
    by (simp add: select_not_one)
  then show "submitEmojiResponse e pollId emoji w =
              (Inr \<lparr>success = False, error = Some (message_or_fallback failure)\<rparr>,
               w\<lparr>calls := calls w @ [Select_votes pollId uid emoji,
                                     Insert_votes (emoji_row pollId uid emoji)]\<rparr>)"
    using assms(3,4) h
    by (simp add: after_awaits [OF assms(1,2)] submitEmojiResponse_try_def valid_no_issue
        insert_votes_def Let_def log_call_def no_rows_def)
qed

theorem store_failure_reports_store_message_witness:
  "submitEmojiResponse (session (Some ''u1'') (refuses_inserts unique_violation)) poll1 thumbs_up
       empty_world =
     (Inr \<lparr>success = False,
           error = Some ''duplicate key value violates unique constraint votes_poll_id_user_id_key''\<rparr>,
      empty_world\<lparr>calls := [Select_votes poll1 ''u1'' thumbs_up,
                               Insert_votes (emoji_row poll1 ''u1'' thumbs_up)]\<rparr>)"
proof -
  let ?e = "session (Some ''u1'') (refuses_inserts unique_violation)"
  have b: "is_uuid ?e poll1" by (simp add: session_def uuid_poll1)
  have c: "rejects ?e (Select_votes poll1 ''u1'' thumbs_up) = None"
    by (simp add: session_def refuses_inserts_def)
  have d: "count_votes poll1 ''u1'' thumbs_up empty_world \<noteq> 1"
    by (simp add: count_votes_def empty_world_def)
  have f: "rejects ?e (Insert_votes (emoji_row poll1 ''u1'' thumbs_up)) = Some unique_violation"
    by (simp add: session_def refuses_inserts_def)
  have g: "message_or_fallback unique_violation =
      ''duplicate key value violates unique constraint votes_poll_id_user_id_key''"
    by (simp add: message_or_fallback_def unique_violation_def)
  have h: "calls empty_world = []" by (simp add: empty_world_def)
  show ?thesis
    using store_failure_reports_store_message
      [OF session_client session_user b refine_thumbs, of unique_violation empty_world] c d f g h
    by simp
qed

section \<open>Properties of \<open>submitVote\<close>\<close>

lemma submitVote_run:
  "submitVote e pollId optionId w =
     (case rejects e (Insert_votes (ballot_row pollId (auth_user e) optionId)) of
        Some failure \<Rightarrow>
          (\<lparr>poll_error = Some (pg_message failure)\<rparr>,
           w\<lparr>calls := calls w @ [Insert_votes (ballot_row pollId (auth_user e) optionId)]\<rparr>)
      | None \<Rightarrow>
          (\<lparr>poll_error = None\<rparr>,
           w\<lparr>db := (db w)\<lparr>votes := votes (db w) @ [ballot_row pollId (auth_user e) optionId]\<rparr>,
             calls := calls w @ [Insert_votes (ballot_row pollId (auth_user e) optionId)]\<rparr>))"
  by (simp add: submitVote_def insert_votes_def Let_def log_call_def split: option.splits)

text \<open>
  Claim C5 as stated fails: with a ballot vote of the user on the poll already stored,
  \<^verbatim>\<open>submitVote\<close> sends no query; its one request is the insert, and what it returns
  is the message of the store's refusal.
\<close>

theorem submitVote_sends_insert_without_query:
  "votes (db voted_world) = [ballot_row poll1 (Some ''u1'') ''option-a''] \<and>
   submitVote (session (Some ''u1'') (refuses_inserts unique_violation)) poll1 ''option-b''
       voted_world =
     (\<lparr>poll_error = Some ''duplicate key value violates unique constraint votes_poll_id_user_id_key''\<rparr>,
      voted_world\<lparr>calls := [Insert_votes (ballot_row poll1 (Some ''u1'') ''option-b'')]\<rparr>)"
  by (simp add: submitVote_run session_def refuses_inserts_def unique_violation_def
      voted_world_def)

text \<open>
  Claim C5, amended. \<^verbatim>\<open>submitVote\<close> sends no query before the insert: its only request
  to the store is the insert of (poll, session user or null, option), whether or not a
  vote of that user on that poll is stored. When the store refuses the insert, the call
  returns the store's error message and no row is added; when the store accepts it, the
  row is added and the call returns \<^verbatim>\<open>error: null\<close>.
\<close>

theorem submitVote_is_one_insert:
  "(rejects e (Insert_votes (ballot_row pollId (auth_user e) optionId)) = Some failure \<longrightarrow>
      submitVote e pollId optionId w =
        (\<lparr>poll_error = Some (pg_message failure)\<rparr>,
         w\<lparr>calls := calls w @ [Insert_votes (ballot_row pollId (auth_user e) optionId)]\<rparr>)) \<and>
   (rejects e (Insert_votes (ballot_row pollId (auth_user e) optionId)) = None \<longrightarrow>
      submitVote e pollId optionId w =
        (\<lparr>poll_error = None\<rparr>,
         w\<lparr>db := (db w)\<lparr>votes := votes (db w) @ [ballot_row pollId (auth_user e) optionId]\<rparr>,
           calls := calls w @ [Insert_votes (ballot_row pollId (auth_user e) optionId)]\<rparr>))"
  by (simp add: submitVote_run)

theorem submitVote_is_one_insert_witness:
  "submitVote (session (Some ''u1'') accepts_all) poll1 ''option-b'' voted_world =
     (\<lparr>poll_error = None\<rparr>,
      voted_world\<lparr>db := (db voted_world)\<lparr>votes :=
                      [ballot_row poll1 (Some ''u1'') ''option-a'',
                       ballot_row poll1 (Some ''u1'') ''option-b'']\<rparr>,
                  calls := [Insert_votes (ballot_row poll1 (Some ''u1'') ''option-b'')]\<rparr>)"
proof -
  let ?e = "session (Some ''u1'') accepts_all"
  have a: "auth_user ?e = Some ''u1''" by (simp add: session_def)
  have b: "rejects ?e (Insert_votes (ballot_row poll1 (auth_user ?e) ''option-b'')) = None"
    by (simp add: session_def accepts_all_def)
  have c: "votes (db voted_world) = [ballot_row poll1 (Some ''u1'') ''option-a'']"
    "calls voted_world = []"
    by (simp_all add: voted_world_def)
  show ?thesis
    using submitVote_is_one_insert [where e = ?e and pollId = poll1 and optionId = "''option-b''"
        and w = voted_world] a b c by simp
qed

text \<open>
  Claim C6 as stated fails: with no session and a store that accepts the row,
  \<^verbatim>\<open>submitVote\<close> returns \<^verbatim>\<open>error: null\<close> and a vote with a null user is stored.
\<close>

theorem anonymous_vote_stored:
  "auth_user (session None accepts_all) = None \<and>
   submitVote (session None accepts_all) poll1 ''option-a'' empty_world =
     (\<lparr>poll_error = None\<rparr>,
      empty_world\<lparr>db := \<lparr>polls = [], poll_options = [],
                           votes = [ballot_row poll1 None ''option-a'']\<rparr>,
                  calls := [Insert_votes (ballot_row poll1 None ''option-a'')]\<rparr>)"
  by (simp add: submitVote_run session_def accepts_all_def empty_world_def)

text \<open>
  Claim C6, amended. With no authenticated session \<^verbatim>\<open>submitVote\<close> makes no
  authentication check: it sends the insert with a null user. When the store accepts
  the insert, the row is stored and the call returns \<^verbatim>\<open>error: null\<close>; when the store
  refuses it, the call returns the store's error message and the tables are unchanged.
\<close>

theorem anonymous_vote_is_sent:
  assumes "auth_user e = None"
  shows "(rejects e (Insert_votes (ballot_row pollId None optionId)) = None \<longrightarrow>
            submitVote e pollId optionId w =
              (\<lparr>poll_error = None\<rparr>,
               w\<lparr>db := (db w)\<lparr>votes := votes (db w) @ [ballot_row pollId None optionId]\<rparr>,
                 calls := calls w @ [Insert_votes (ballot_row pollId None optionId)]\<rparr>)) \<and>
         (rejects e (Insert_votes (ballot_row pollId None optionId)) = Some failure \<longrightarrow>
            submitVote e pollId optionId w =
              (\<lparr>poll_error = Some (pg_message failure)\<rparr>,
               w\<lparr>calls := calls w @ [Insert_votes (ballot_row pollId None optionId)]\<rparr>))"
  using assms by (simp add: submitVote_run)

theorem anonymous_vote_is_sent_witness:
  "submitVote (session None (refuses_inserts policy_violation)) poll1 ''option-a'' empty_world =
     (\<lparr>poll_error = Some ''new row violates row-level security policy for table votes''\<rparr>,
      empty_world\<lparr>calls := [Insert_votes (ballot_row poll1 None ''option-a'')]\<rparr>)"
proof -
  let ?e = "session None (refuses_inserts policy_violation)"
  have a: "auth_user ?e = None" by (simp add: session_def)
  have b: "rejects ?e (Insert_votes (ballot_row poll1 None ''option-a'')) = Some policy_violation"
    by (simp add: session_def refuses_inserts_def)
  have c: "calls empty_world = []" by (simp add: empty_world_def)
  have d: "pg_message policy_violation =
      ''new row violates row-level security policy for table votes''"
    by (simp add: policy_violation_def)
  show ?thesis
    using anonymous_vote_is_sent [OF a, where pollId = poll1 and optionId = "''option-a''"
        and failure = policy_violation and w = empty_world] b c d by simp
qed

section \<open>Properties of \<open>createPoll\<close>\<close>

lemma createPoll_valid:
  assumes "fd_question formData = Some question" and "question \<noteq> []"
    and "2 \<le> length (filter (\<lambda>s. s \<noteq> []) (fd_options formData))"
    and "auth_error e = None" and "auth_user e = Some uid"
  shows "createPoll e formData w =
     (case insert_polls e question (Some uid) w of
        (Inl pollError, w1) \<Rightarrow>
          (\<lparr>poll_error = Some (''Failed to create poll: '' @ pg_message pollError)\<rparr>, w1)
      | (Inr pollId, w1) \<Rightarrow>
          (case insert_poll_options e
                  (optionsToInsert pollId (filter (\<lambda>s. s \<noteq> []) (fd_options formData))) w1 of
             (Some optionsError, w2) \<Rightarrow>
               (\<lparr>poll_error = Some (''Failed to create poll options: '' @ pg_message optionsError)\<rparr>, w2)
           | (None, w2) \<Rightarrow> (\<lparr>poll_error = None\<rparr>, revalidatePath ''/polls'' w2)))"
  using assms by (simp add: createPoll_def Let_def not_less [symmetric])

text \<open>
  Claim C7. A \<^verbatim>\<open>createPoll\<close> call with a non-empty question, at least two non-empty
  options after filtering, and an authenticated user sends the poll insert first and
  the options insert second (and only after the poll insert was accepted). When the
  store refuses the options insert after accepting the poll row, the call returns the
  error \<^verbatim>\<open>Failed to create poll options: ...\<close> and the poll row stays in the store with no
  option row: no further request (no compensating delete) is sent.
\<close>

theorem createPoll_poll_then_options:
  assumes "fd_question formData = Some question" and "question \<noteq> []"
    and "2 \<le> length (filter (\<lambda>s. s \<noteq> []) (fd_options formData))"
    and "auth_error e = None" and "auth_user e = Some uid"
    and "rows = optionsToInsert (new_id e) (filter (\<lambda>s. s \<noteq> []) (fd_options formData))"
    and "poll = \<lparr>polls_id = new_id e, polls_title = question, polls_created_by = Some uid\<rparr>"
  shows "(rejects e (Insert_polls question (Some uid)) = Some failure \<longrightarrow>
            createPoll e formData w =
              (\<lparr>poll_error = Some (''Failed to create poll: '' @ pg_message failure)\<rparr>,
               w\<lparr>calls := calls w @ [Insert_polls question (Some uid)]\<rparr>)) \<and>
         (rejects e (Insert_polls question (Some uid)) = None \<and>
          rejects e (Insert_poll_options rows) = Some failure \<longrightarrow>
            createPoll e formData w =
              (\<lparr>poll_error = Some (''Failed to create poll options: '' @ pg_message failure)\<rparr>,
               w\<lparr>db := (db w)\<lparr>polls := polls (db w) @ [poll]\<rparr>,
                 calls := calls w @ [Insert_polls question (Some uid), Insert_poll_options rows]\<rparr>)) \<and>
         (rejects e (Insert_polls question (Some uid)) = None \<and>
          rejects e (Insert_poll_options rows) = None \<longrightarrow>
            createPoll e formData w =
              (\<lparr>poll_error = None\<rparr>,
               w\<lparr>db := (db w)\<lparr>polls := polls (db w) @ [poll],
                                poll_options := poll_options (db w) @ rows\<rparr>,
                 calls := calls w @ [Insert_polls question (Some uid), Insert_poll_options rows],
                 revalidated := revalidated w @ [''/polls'']\<rparr>))"
  unfolding createPoll_valid [OF assms(1-5)] assms(6,7)
  by (simp add: insert_polls_def insert_poll_options_def Let_def log_call_def revalidatePath_def)

theorem createPoll_poll_then_options_witness:
  "createPoll (session (Some ''u1'') (refuses_inserts outage)) two_options empty_world =
     (\<lparr>poll_error = Some ''Failed to create poll options: canceling statement due to statement timeout''\<rparr>,
      empty_world\<lparr>db := \<lparr>polls = [\<lparr>polls_id = ''22222222-2222-2222-2222-222222222222'',
                                     polls_title = ''Tea or coffee?'',
                                     polls_created_by = Some ''u1''\<rparr>],
                           poll_options = [], votes = []\<rparr>,
                  calls := [Insert_polls ''Tea or coffee?'' (Some ''u1''),
                            Insert_poll_options
                              [\<lparr>options_poll_id = ''22222222-2222-2222-2222-222222222222'',
                                option_text = ''Tea'', option_order = 0\<rparr>,
                               \<lparr>options_poll_id = ''22222222-2222-2222-2222-222222222222'',
                                option_text = ''Coffee'', option_order = 1\<rparr>]]\<rparr>)"
proof -
  let ?e = "session (Some ''u1'') (refuses_inserts outage)"
  let ?rows = "[\<lparr>options_poll_id = ''22222222-2222-2222-2222-222222222222'',
                                option_text = ''Tea'', option_order = 0\<rparr>,
                               \<lparr>options_poll_id = ''22222222-2222-2222-2222-222222222222'',
                                option_text = ''Coffee'', option_order = 1\<rparr>]"
  have a: "fd_question two_options = Some ''Tea or coffee?''" "''Tea or coffee?'' \<noteq> []"
    by (simp_all add: two_options_def)
  have b: "2 \<le> length (filter (\<lambda>s. s \<noteq> []) (fd_options two_options))"
    by (simp add: two_options_def)
  have c: "auth_error ?e = None" "auth_user ?e = Some ''u1''"
    by (simp_all add: session_def)
  have d: "?rows = optionsToInsert (new_id ?e) (filter (\<lambda>s. s \<noteq> []) (fd_options two_options))"
    by (simp add: optionsToInsert_def session_def two_options_def)
  have r1: "rejects ?e (Insert_polls ''Tea or coffee?'' (Some ''u1'')) = None"
    by (simp add: session_def refuses_inserts_def)
  have r2: "rejects ?e (Insert_poll_options ?rows) = Some outage"
    by (simp add: session_def refuses_inserts_def)
  have m: "pg_message outage = ''canceling statement due to statement timeout''"
    by (simp add: outage_def)
  have n: "new_id ?e = ''22222222-2222-2222-2222-222222222222''"
    by (simp add: session_def)
  show ?thesis
    using createPoll_poll_then_options [OF a b c d refl, where failure = outage and w = empty_world] r1 r2 m n
    by (simp add: empty_world_def)
qed

section \<open>Properties of \<open>deletePoll\<close>\<close>

lemma delete_polls_db:
  "db (snd (delete_polls e ident w)) =
     (if rejects e (Delete_polls ident) = None \<and>
         list_ex (\<lambda>p. polls_id p = ident \<and> delete_policy (auth_user e) p) (polls (db w))
      then \<lparr>polls = filter (\<lambda>p. \<not> (polls_id p = ident \<and> delete_policy (auth_user e) p)) (polls (db w)),
            poll_options = filter (\<lambda>r. options_poll_id r \<noteq> ident) (poll_options (db w)),
            votes = filter (\<lambda>r. votes_poll_id r \<noteq> ident) (votes (db w))\<rparr>
      else db w)"
  by (simp add: delete_polls_def Let_def log_call_def split: option.splits)

lemma deletePoll_db: "db (snd (deletePoll e ident w)) = db (snd (delete_polls e ident w))"
  by (simp add: deletePoll_def revalidatePath_def split: prod.splits option.splits)

text \<open>
  Claim C8. \<^verbatim>\<open>deletePoll\<close> sends the delete under the session's identity, and the
  store's delete policy decides: a poll that is gone after the call has the requested
  id and was created by the session's user; when the session has no user or its user
  created no poll with that id, the tables are unchanged; when the creator asks and the
  store serves the request, the poll is gone and so is every option and vote that
  references it.
\<close>

theorem deletePoll_only_by_creator:
  "(\<forall>p. p \<in> set (polls (db w)) \<and> p \<notin> set (polls (db (snd (deletePoll e ident w)))) \<longrightarrow>
        polls_id p = ident \<and> (\<exists>u. auth_user e = Some u \<and> polls_created_by p = Some u)) \<and>
   ((\<forall>p \<in> set (polls (db w)). polls_id p = ident \<longrightarrow> 
        auth_user e = None \<or> polls_created_by p \<noteq> auth_user e) \<longrightarrow>
      db (snd (deletePoll e ident w)) = db w) \<and>
   (\<forall>p u. p \<in> set (polls (db w)) \<and> polls_id p = ident \<and> auth_user e = Some u \<and>
          polls_created_by p = Some u \<and> rejects e (Delete_polls ident) = None \<longrightarrow>
        p \<notin> set (polls (db (snd (deletePoll e ident w)))) \<and>
        (\<forall>r \<in> set (poll_options (db (snd (deletePoll e ident w)))). options_poll_id r \<noteq> ident) \<and>
        (\<forall>r \<in> set (votes (db (snd (deletePoll e ident w)))). votes_poll_id r \<noteq> ident))"
proof (intro conjI allI impI)
  fix p
  assume "p \<in> set (polls (db w)) \<and> p \<notin> set (polls (db (snd (deletePoll e ident w))))"
  then show "polls_id p = ident"
    by (auto simp: deletePoll_db delete_polls_db split: if_splits)
next
  fix p
  assume "p \<in> set (polls (db w)) \<and> p \<notin> set (polls (db (snd (deletePoll e ident w))))"
  then show "\<exists>u. auth_user e = Some u \<and> polls_created_by p = Some u"
    by (auto simp: deletePoll_db delete_polls_db delete_policy_def split: if_splits option.splits)
next
  assume "\<forall>p \<in> set (polls (db w)). polls_id p = ident \<longrightarrow>
        auth_user e = None \<or> polls_created_by p \<noteq> auth_user e"
  then have "\<not> list_ex (\<lambda>p. polls_id p = ident \<and> delete_policy (auth_user e) p) (polls (db w))"
    by (auto simp: list_ex_iff delete_policy_def split: option.splits)
  then show "db (snd (deletePoll e ident w)) = db w"
    by (simp add: deletePoll_db delete_polls_db)
next
  fix p u
  assume h: "p \<in> set (polls (db w)) \<and> polls_id p = ident \<and> auth_user e = Some u \<and>
          polls_created_by p = Some u \<and> rejects e (Delete_polls ident) = None"
  then have ex: "list_ex (\<lambda>p. polls_id p = ident \<and> delete_policy (auth_user e) p) (polls (db w))"
    by (auto simp: list_ex_iff delete_policy_def)
  show "p \<notin> set (polls (db (snd (deletePoll e ident w))))"
    using h ex by (simp add: deletePoll_db delete_polls_db delete_policy_def)
  show "\<forall>r \<in> set (poll_options (db (snd (deletePoll e ident w)))). options_poll_id r \<noteq> ident"
    using h ex by (simp add: deletePoll_db delete_polls_db)
  show "\<forall>r \<in> set (votes (db (snd (deletePoll e ident w)))). votes_poll_id r \<noteq> ident"
    using h ex by (simp add: deletePoll_db delete_polls_db)
qed

theorem deletePoll_only_by_creator_witness:
  "db (snd (deletePoll (session (Some ''u2'') accepts_all) poll1 owned_world)) = db owned_world \<and>
   db (snd (deletePoll (session None accepts_all) poll1 owned_world)) = db owned_world \<and>
   db (snd (deletePoll (session (Some ''u1'') accepts_all) poll1 owned_world)) =
     \<lparr>polls = [], poll_options = [], votes = []\<rparr>"
proof -
  have a: "\<forall>p \<in> set (polls (db owned_world)). polls_id p = poll1 \<longrightarrow>
        auth_user (session (Some ''u2'') accepts_all) = None \<or>
        polls_created_by p \<noteq> auth_user (session (Some ''u2'') accepts_all)"
    by (simp add: owned_world_def session_def)
  have b: "\<forall>p \<in> set (polls (db owned_world)). polls_id p = poll1 \<longrightarrow>
        auth_user (session None accepts_all) = None \<or>
        polls_created_by p \<noteq> auth_user (session None accepts_all)"
    by (simp add: owned_world_def session_def)
  have c: "db (snd (deletePoll (session (Some ''u1'') accepts_all) poll1 owned_world)) =
     \<lparr>polls = [], poll_options = [], votes = []\<rparr>"
    by (simp add: deletePoll_db delete_polls_db session_def accepts_all_def owned_world_def
        delete_policy_def ballot_row_def)
  show ?thesis
    using deletePoll_only_by_creator [of owned_world "session (Some ''u2'') accepts_all" poll1] a
      deletePoll_only_by_creator [of owned_world "session None accepts_all" poll1] b c
    by blast
qed

section \<open>Properties of the emoji validator\<close>

lemma Array_from_empty: "Array_from s = [] \<longleftrightarrow> s = []"
  by (induction s rule: Array_from.induct) auto

lemma refine_shape:
  "emoji_refine s \<longleftrightarrow>
     (\<exists>u. s = [u]) \<or> (\<exists>h l. s = [h, l] \<and> is_lead_surrogate h \<and> is_trail_surrogate l)"
proof (cases s rule: Array_from.cases)
  case 1
  then show ?thesis by (simp add: emoji_refine_def)
next
  case (2 u)
  then show ?thesis by (simp add: emoji_refine_def)
next
  case (3 u v rest)
  then show ?thesis by (auto simp: emoji_refine_def Array_from_empty)
qed

lemma unat_unit: "n < 65536 \<Longrightarrow> unat (of_nat n :: code_unit) = n"
  by (simp add: unat_of_nat)

lemma unit_bound: "unat (u :: code_unit) < 65536"
  using unsigned_less [of u, where 'a = nat] by simp

lemma utf16_unit: "utf16 (unat u) = [u]"
  using unit_bound [of u] by (simp add: utf16_def)

lemma utf16_pair:
  assumes "is_lead_surrogate h" and "is_trail_surrogate l"
  shows "utf16 (0x10000 + (unat h - 0xD800) * 0x400 + (unat l - 0xDC00)) = [h, l]"
    and "0x10000 + (unat h - 0xD800) * 0x400 + (unat l - 0xDC00) \<le> 0x10FFFF"
proof -
  define a where "a = unat h - 0xD800"
  define b where "b = unat l - 0xDC00"
  have a: "a < 0x400" "0xD800 + a = unat h"
    using assms(1) unfolding a_def is_lead_surrogate_def by linarith+
  have b: "b < 0x400" "0xDC00 + b = unat l"
    using assms(2) unfolding b_def is_trail_surrogate_def by linarith+
  have d: "(a * 0x400 + b) div 0x400 = a" "(a * 0x400 + b) mod 0x400 = b"
    using b(1) by simp_all
  have "utf16 (0x10000 + a * 0x400 + b) = [of_nat (0xD800 + a), of_nat (0xDC00 + b)]"
    using d by (simp add: utf16_def add.assoc)
  then show "utf16 (0x10000 + (unat h - 0xD800) * 0x400 + (unat l - 0xDC00)) = [h, l]"
    unfolding a(2) b(2) a_def [symmetric] b_def [symmetric] by simp
  show "0x10000 + (unat h - 0xD800) * 0x400 + (unat l - 0xDC00) \<le> 0x10FFFF"
    unfolding a_def [symmetric] b_def [symmetric] using a(1) b(1) by simp
qed

lemma utf16_high:
  assumes "0x10000 \<le> cp" and "cp \<le> 0x10FFFF"
  shows "\<exists>h l. utf16 cp = [h, l] \<and> is_lead_surrogate h \<and> is_trail_surrogate l"
proof -
  have q: "(cp - 0x10000) div 0x400 < 0x400"
    using assms by (simp add: less_mult_imp_div_less)
  have r: "(cp - 0x10000) mod 0x400 < 0x400"
    by simp
  define m where "m = 0xD800 + (cp - 0x10000) div 0x400"
  define n where "n = 0xDC00 + (cp - 0x10000) mod 0x400"
  have m: "0xD800 \<le> m" "m \<le> 0xDBFF" and n: "0xDC00 \<le> n" "n \<le> 0xDFFF"
    using q r unfolding m_def n_def by linarith+
  have "unat (of_nat m :: code_unit) = m" "unat (of_nat n :: code_unit) = n"
    using m n by (simp_all only: unat_of_nat) simp_all
  then have "is_lead_surrogate (of_nat m)" "is_trail_surrogate (of_nat n)"
    using m n by (simp_all add: is_lead_surrogate_def is_trail_surrogate_def)
  then have "is_lead_surrogate (of_nat (0xD800 + (cp - 0x10000) div 0x400))"
    "is_trail_surrogate (of_nat (0xDC00 + (cp - 0x10000) mod 0x400))"
    unfolding m_def n_def .
  moreover have "utf16 cp = [of_nat (0xD800 + (cp - 0x10000) div 0x400),
                          of_nat (0xDC00 + (cp - 0x10000) mod 0x400)]"
    using assms unfolding utf16_def by (simp only: not_less [symmetric] if_False) 
  ultimately show ?thesis
    by blast
qed

lemma refine_utf16: "cp \<le> 0x10FFFF \<Longrightarrow> emoji_refine (utf16 cp)"
proof (cases "cp < 0x10000")
  case True
  then show ?thesis by (simp add: refine_shape utf16_def)
next
  case False
  assume "cp \<le> 0x10FFFF"
  with False utf16_high [of cp] show ?thesis
    by (auto simp: refine_shape)
qed

lemma refine_iff_one_code_point:
  "emoji_refine s \<longleftrightarrow> (\<exists>cp. cp \<le> 0x10FFFF \<and> s = utf16 cp)"
proof
  assume "emoji_refine s"
  then consider u where "s = [u]"
    | h l where "s = [h, l]" "is_lead_surrogate h" "is_trail_surrogate l"
    by (auto simp: refine_shape)
  then show "\<exists>cp. cp \<le> 0x10FFFF \<and> s = utf16 cp"
  proof cases
    case 1
    have "unat u \<le> 0x10FFFF" using unit_bound [of u] by simp
    with 1 utf16_unit [of u] show ?thesis by metis
  next
    case 2
    with utf16_pair [of h l] show ?thesis by metis
  qed
next
  assume "\<exists>cp. cp \<le> 0x10FFFF \<and> s = utf16 cp"
  then show "emoji_refine s" by (auto simp: refine_utf16)
qed

lemma Array_from_utf16_cons:
  assumes "scalar_value cp"
  shows "Array_from (utf16 cp @ rest) = utf16 cp # Array_from rest"
proof (cases "cp < 0x10000")
  case True
  then have u: "utf16 cp = [of_nat cp]" by (simp add: utf16_def)
  have n: "\<not> is_lead_surrogate (of_nat cp :: code_unit)"
    using True assms by (auto simp: is_lead_surrogate_def scalar_value_def unat_unit)
  show ?thesis
    by (cases rest) (simp_all add: u n)
next
  case False
  with assms utf16_high [of cp] obtain h l where
    "utf16 cp = [h, l]" "is_lead_surrogate h" "is_trail_surrogate l"
    by (auto simp: scalar_value_def)
  then show ?thesis by simp
qed

lemma Array_from_encoded:
  "list_all scalar_value cps \<Longrightarrow> Array_from (concat (map utf16 cps)) = map utf16 cps"
  by (induction cps) (simp_all add: Array_from_utf16_cons)


lemma refine_examples:
  "emoji_refine [0x61]" "emoji_refine thumbs_up"
  "\<not> emoji_refine thumbs_up_medium_skin" "\<not> emoji_refine family_zwj" "\<not> emoji_refine []"
  by (simp_all add: emoji_refine_def thumbs_up_def thumbs_up_medium_skin_def family_zwj_def
      is_lead_surrogate_def is_trail_surrogate_def)

text \<open>
  Claim C10. The emoji validator (\<^verbatim>\<open>Array.from(str).length === 1\<close>) accepts a string
  exactly when it is the UTF-16 encoding of one code point (\<open>0 .. 0x10FFFF\<close>), be it
  one code unit or a surrogate pair; the encoding of a sequence of Unicode scalar values
  is accepted exactly when the sequence has one element. A rejected string raises the
  issue with the message \<^verbatim>\<open>Emoji must be a single character.\<close>, which is what an
  authenticated caller with a well-formed poll identifier gets back. The letter \<open>a\<close>
  and the thumbs-up sign (two code units) are accepted; the thumbs-up sign with a
  skin-tone modifier and a ZWJ family sequence are rejected.
\<close>

theorem emoji_accepted_iff_one_code_point:
  "(emoji_refine s \<longleftrightarrow> (\<exists>cp. cp \<le> 0x10FFFF \<and> s = utf16 cp)) \<and>
   (list_all scalar_value cps \<longrightarrow>
      (emoji_refine (concat (map utf16 cps)) \<longleftrightarrow> length cps = 1)) \<and>
   (\<not> emoji_refine s \<longrightarrow>
      last (emojiResponseSchema e pollId s) =
        \<lparr>issue_path = ''emoji'', issue_message = ''Emoji must be a single character.''\<rparr>) \<and>
   (createClient e = Inr () \<and> getUser e = Inr (Some uid) \<and> is_uuid e pollId \<and>
    \<not> emoji_refine s \<longrightarrow>
      submitEmojiResponse e pollId s w =
        (Inr \<lparr>success = False, error = Some ''Emoji must be a single character.''\<rparr>, w)) \<and>
   emoji_refine [0x61] \<and> emoji_refine thumbs_up \<and>
   \<not> emoji_refine thumbs_up_medium_skin \<and> \<not> emoji_refine family_zwj"
proof (intro conjI impI)
  show "emoji_refine s \<longleftrightarrow> (\<exists>cp. cp \<le> 0x10FFFF \<and> s = utf16 cp)"
    by (rule refine_iff_one_code_point)
next
  assume "list_all scalar_value cps"
  then show "emoji_refine (concat (map utf16 cps)) \<longleftrightarrow> length cps = 1"
    by (simp add: emoji_refine_def Array_from_encoded)
next
  assume "\<not> emoji_refine s"
  then show "last (emojiResponseSchema e pollId s) =
        \<lparr>issue_path = ''emoji'', issue_message = ''Emoji must be a single character.''\<rparr>"
    by (simp add: emojiResponseSchema_def)
next
  assume "createClient e = Inr () \<and> getUser e = Inr (Some uid) \<and> is_uuid e pollId \<and>
    \<not> emoji_refine s"
  then show "submitEmojiResponse e pollId s w =
        (Inr \<lparr>success = False, error = Some ''Emoji must be a single character.''\<rparr>, w)"
    by (simp add: after_awaits emojiResponseSchema_def)
qed (rule refine_examples)+

theorem emoji_accepted_iff_one_code_point_witness:
  "list_all scalar_value [0x1F44D, 0x1F3FD] \<and>
   concat (map utf16 [0x1F44D, 0x1F3FD]) = thumbs_up_medium_skin \<and>
   \<not> emoji_refine thumbs_up_medium_skin \<and>
   submitEmojiResponse (session (Some ''u1'') accepts_all) poll1 thumbs_up_medium_skin empty_world =
     (Inr \<lparr>success = False, error = Some ''Emoji must be a single character.''\<rparr>, empty_world)"
proof -
  let ?e = "session (Some ''u1'') accepts_all"
  have a: "list_all scalar_value [0x1F44D, 0x1F3FD]"
    by (simp add: scalar_value_def)
  have b: "concat (map utf16 [0x1F44D, 0x1F3FD]) = thumbs_up_medium_skin"
    by (simp add: utf16_def thumbs_up_medium_skin_def)
  have c: "createClient ?e = Inr ()" "getUser ?e = Inr (Some ''u1'')" "is_uuid ?e poll1"
    by (rule session_client, rule session_user) (simp add: session_def uuid_poll1)
  note t = emoji_accepted_iff_one_code_point [where cps = "[0x1F44D, 0x1F3FD]" and s = thumbs_up_medium_skin
      and e = ?e and pollId = poll1 and uid = "''u1''" and w = empty_world]
  from t a have "emoji_refine (concat (map utf16 [0x1F44D, 0x1F3FD])) \<longleftrightarrow>
      length [0x1F44D, 0x1F3FD :: nat] = 1"
    by blast
  then have d: "\<not> emoji_refine thumbs_up_medium_skin"
    unfolding b by simp
  with t c have "submitEmojiResponse ?e poll1 thumbs_up_medium_skin empty_world =
     (Inr \<lparr>success = False, error = Some ''Emoji must be a single character.''\<rparr>, empty_world)"
    by blast
  with a b d show ?thesis by blast
qed

end
